theory Spec2Isabelle
  imports Main "HOL-Library.Word" "HOL-Library.Signed_Division" "HOL-Library.Sublist"
    "HOL-Library.Char_ord"
begin

section \<open>The debug collector of dgraph/cmd/debuginfo/debugging.go\<close>

text \<open>
  The file fetches profiling and metric endpoints of a server over HTTP and writes each
  response to a file. Its four functions (\<open>saveProfiles\<close>, \<open>saveMetrics\<close>,
  \<open>saveDebug\<close>, \<open>fetchURL\<close>) and the helper \<open>statusCodeError\<close> are embedded
  below as functions over an explicit world: the file system and the list of the
  actions performed so far. What the Go standard library and the outside world
  contribute (URL parsing and printing, the float conversion of a duration, the answer
  of the server, the faults of the file system) is a parameter of the model, the record
  \<open>env\<close>; every theorem about the program holds for every such environment.
\<close>

subsection \<open>Data\<close>

text \<open>\<open>time.Duration\<close> is an \<open>int64\<close> count of nanoseconds; \<open>+\<close> wraps around.\<close>

type_synonym Duration = "64 word"

definition Second :: Duration where
  "Second = 1000000000"

text \<open>
  The fields of \<open>url.URL\<close> that the program reads (\<open>Scheme\<close>, \<open>Host\<close>), and those
  that \<open>URL.String\<close> prints for an address without user, query and fragment.
\<close>

record URL =
  Scheme :: string
  Opaque :: string
  Host :: string
  Path :: string

text \<open>
  An \<open>http.Response\<close>: the status line, the status code, the header (a map from the
  canonical key to its values) and the body. The body is a stream: reading it to its
  end delivers the bytes \<open>Body\<close> and then either the end of the stream
  (\<open>BodyErr = None\<close>) or a read error.
\<close>

record Response =
  Status :: string
  StatusCode :: int
  Header :: "string \<rightharpoonup> string list"
  Body :: string
  BodyErr :: "string option"

text \<open>
  The errors \<open>saveDebug\<close> returns. Go builds each with \<open>fmt.Errorf\<close>, or passes on the
  error of \<open>io.Copy\<close>; the constructor records which statement built the error, the
  argument is the text of the message.
\<close>

datatype error =
    HttpFetch string
  | ServerResponse string
  | CreateDump string
  | CopyFailed string

text \<open>The lines written with \<open>glog\<close>, by their format string and arguments.\<close>

datatype logline =
    ErrorParsingAddress string "string option"
  | ErrorSavingProfile string error
  | ErrorSavingMetric string error
  | InfoSavingProfile string string
  | InfoSavingMetric string string
  | InfoFetching string
  | InfoPleaseWait Duration

text \<open>
  The actions of the program on its surroundings, in the order they happen.
  \<open>HttpGet url timeout\<close> is one call of \<open>client.Get\<close>, \<open>BodyOpened\<close> a response
  whose body the program now owns, \<open>FileCreated\<close> a successful \<open>os.Create\<close> (the
  handle is open from then on), \<open>FileWritten\<close> the bytes \<open>io.Copy\<close> wrote.
  \<open>FileClosed\<close> is the closing of a file handle: part of the vocabulary, although no
  statement of the program performs it.
\<close>

datatype event =
    UrlParse string
  | HttpGet string Duration
  | BodyOpened string
  | BodyClosed string
  | FileCreated string
  | FileWritten string string
  | FileClosed string
  | Logged logline

record world =
  files :: "string \<rightharpoonup> string"
  trace :: "event list"

definition emit :: "event \<Rightarrow> world \<Rightarrow> world" where
  "emit e w = w\<lparr>trace := trace w @ [e]\<rparr>"

text \<open>
  The environment. \<open>Parse\<close> is \<open>url.Parse\<close> (\<open>Inl\<close> its error), \<open>String\<close> is
  \<open>URL.String\<close>, \<open>Seconds\<close> is \<open>int(duration.Seconds())\<close> (a float64 computation of
  package \<open>time\<close>, converted back to an integer). \<open>Get\<close> answers a request, \<open>CreateFault\<close>
  is the error of \<open>os.Create\<close> if it fails, \<open>WriteFault\<close> tells whether writing the given
  bytes to the file fails, after how many bytes and with which error. The last three see
  the world at the moment of the call, so the same request can be answered differently
  at different times.
\<close>

record env =
  Parse :: "string \<Rightarrow> string + URL"
  String :: "URL \<Rightarrow> string"
  Seconds :: "Duration \<Rightarrow> int"
  Get :: "world \<Rightarrow> string \<Rightarrow> Duration \<Rightarrow> string + Response"
  CreateFault :: "world \<Rightarrow> string \<Rightarrow> string option"
  WriteFault :: "world \<Rightarrow> string \<Rightarrow> string \<Rightarrow> (nat \<times> string) option"

subsection \<open>Library functions with a fixed meaning\<close>

text \<open>\<open>%d\<close> of \<open>fmt.Sprintf\<close>: the decimal digits, with a minus sign below zero.\<close>

fun showNat :: "nat \<Rightarrow> string" where
  "showNat n = (if n < 10 then [''0123456789'' ! n]
                else showNat (n div 10) @ [''0123456789'' ! (n mod 10)])"

declare showNat.simps [simp del]

definition itoa :: "int \<Rightarrow> string" where
  "itoa i = (if i < 0 then CHR ''-'' # showNat (nat (- i)) else showNat (nat i))"

text \<open>\<open>strings.Contains s substr\<close>.\<close>

fun Contains :: "string \<Rightarrow> string \<Rightarrow> bool" where
  "Contains [] substr = (substr = [])"
| "Contains (c # s) substr = (if prefix substr (c # s) then True else Contains s substr)"

text \<open>\<open>Header.Get key\<close>: the first value stored under the key, the empty string if none.\<close>

definition Header_Get :: "(string \<rightharpoonup> string list) \<Rightarrow> string \<Rightarrow> string" where
  "Header_Get h key = (case h key of None \<Rightarrow> [] | Some [] \<Rightarrow> [] | Some (v # vs) \<Rightarrow> v)"

text \<open>
  \<open>os.Create\<close>: on success the file exists and is empty, and its handle is open.
\<close>

definition os_Create :: "env \<Rightarrow> string \<Rightarrow> world \<Rightarrow> string option \<times> world" where
  "os_Create env name w =
     (case CreateFault env w name of
        Some e \<Rightarrow> (Some e, w)
      | None \<Rightarrow> (None, emit (FileCreated name) (w\<lparr>files := (files w)(name \<mapsto> [])\<rparr>)))"

definition append_file :: "string \<Rightarrow> string \<Rightarrow> world \<Rightarrow> world" where
  "append_file name bs w =
     emit (FileWritten name bs)
       (w\<lparr>files := (files w)(name \<mapsto> (case files w name of None \<Rightarrow> bs | Some old \<Rightarrow> old @ bs))\<rparr>)"

text \<open>
  \<open>io.Copy dst src\<close> copies until the end of the source or the first error, and
  returns that error, \<open>nil\<close> at the end of the stream. A write that fails leaves the
  bytes written before it in the file.
\<close>

definition io_Copy :: "env \<Rightarrow> string \<Rightarrow> Response \<Rightarrow> world \<Rightarrow> string option \<times> world" where
  "io_Copy env name resp w =
     (case WriteFault env w name (Body resp) of
        Some (n, e) \<Rightarrow> (Some e, append_file name (take n (Body resp)) w)
      | None \<Rightarrow> (BodyErr resp, append_file name (Body resp) w))"

subsection \<open>statusCodeError, fetchURL, saveDebug\<close>

text \<open>
  Lines 139-147. \<open>ioutil.ReadAll\<close> returns the bytes read and the read error; the
  body enters the message only when that error is \<open>nil\<close>.
\<close>

definition statusCodeError :: "Response \<Rightarrow> error" where
  "statusCodeError resp =
     (if Header_Get (Header resp) ''X-Go-Pprof'' \<noteq> [] \<and>
         Contains (Header_Get (Header resp) ''Content-Type'') ''text/plain''
      then (case BodyErr resp of
              None \<Rightarrow> ServerResponse (''server response: '' @ Status resp @ '' - '' @ Body resp)
            | Some e \<Rightarrow> ServerResponse (''server response: '' @ Status resp))
      else ServerResponse (''server response: '' @ Status resp))"

text \<open>
  Lines 123-137. \<open>http.StatusOK\<close> is 200. The deferred \<open>resp.Body.Close()\<close> of the
  error branch runs after \<open>statusCodeError\<close> has read the body.
\<close>

definition fetchURL :: "env \<Rightarrow> string \<Rightarrow> Duration \<Rightarrow> world \<Rightarrow> (error + Response) \<times> world" where
  "fetchURL env source timeout w =
     (case Get env w source timeout of
        Inl e \<Rightarrow> (Inl (HttpFetch (''http fetch: '' @ e)), emit (HttpGet source timeout) w)
      | Inr resp \<Rightarrow>
          (let w1 = emit (BodyOpened source) (emit (HttpGet source timeout) w)
           in if StatusCode resp \<noteq> 200
              then (Inl (statusCodeError resp), emit (BodyClosed source) w1)
              else (Inr resp, w1)))"

text \<open>Lines 102-105: the two lines logged before the request.\<close>

definition announce :: "string \<Rightarrow> Duration \<Rightarrow> world \<Rightarrow> world" where
  "announce sourceURL duration w =
     (let w1 = emit (Logged (InfoFetching sourceURL)) w
      in if 0 < sint duration then emit (Logged (InfoPleaseWait duration)) w1 else w1)"

text \<open>
  Lines 98-120. \<open>duration/2\<close> is Go's division of \<open>int64\<close>, which truncates towards
  zero; the sum is taken in \<open>int64\<close>. The deferred \<open>resp.Close()\<close> runs on both paths
  after the response was obtained. The result is the error returned (\<open>None\<close> for
  \<open>nil\<close>) and the world after the call.
\<close>

definition saveDebug :: "env \<Rightarrow> string \<Rightarrow> string \<Rightarrow> Duration \<Rightarrow> world \<Rightarrow> error option \<times> world" where
  "saveDebug env sourceURL filePath duration w =
     (let timeout = duration + word_of_int (sint duration sdiv 2) + 2 * Second
      in case fetchURL env sourceURL timeout (announce sourceURL duration w) of
           (Inl err, w1) \<Rightarrow> (Some err, w1)
         | (Inr resp, w1) \<Rightarrow>
             (case os_Create env filePath w1 of
                (Some e, w2) \<Rightarrow>
                  (Some (CreateDump (''error while creating dump file: '' @ e)),
                   emit (BodyClosed sourceURL) w2)
              | (None, w2) \<Rightarrow>
                  (case io_Copy env filePath resp w2 of
                     (err, w3) \<Rightarrow> (map_option CopyFailed err, emit (BodyClosed sourceURL) w3))))"

subsection \<open>saveProfiles and saveMetrics\<close>

text \<open>
  Lines 49-56 of \<open>saveProfiles\<close>: the address is parsed, parsed again with
  \<open>http://\<close> in front under the condition of line 50, and rejected (with a line in the
  log) when the last parse failed or gave no host. The result is the URL the loop
  works with, \<open>None\<close> when the function returns at line 55.
\<close>

definition saveProfiles_addr :: "env \<Rightarrow> string \<Rightarrow> world \<Rightarrow> URL option \<times> world" where
  "saveProfiles_addr env addr w =
     (let r0 = Parse env addr;
          w0 = emit (UrlParse addr) w;
          (r, w1) =
            (if (case r0 of Inl err \<Rightarrow> True
                 | Inr u \<Rightarrow> Host u = [] \<and> Scheme u \<noteq> [] \<and> Scheme u \<noteq> ''file'')
             then (Parse env (''http://'' @ addr), emit (UrlParse (''http://'' @ addr)) w0)
             else (r0, w0))
      in case r of
           Inl err \<Rightarrow> (None, emit (Logged (ErrorParsingAddress addr (Some err))) w1)
         | Inr u \<Rightarrow>
             if Host u = [] then (None, emit (Logged (ErrorParsingAddress addr None)) w1)
             else (Some u, w1))"

text \<open>Lines 59-68: the body of the loop of \<open>saveProfiles\<close>.\<close>

definition saveProfiles_step ::
  "env \<Rightarrow> URL \<Rightarrow> string \<Rightarrow> Duration \<Rightarrow> string \<Rightarrow> world \<Rightarrow> world" where
  "saveProfiles_step env u pathPrefix duration profileType w =
     (let source = String env u @ ''/debug/pprof/'' @ profileType @ ''?duration='' @
                   itoa (Seconds env duration);
          savePath = pathPrefix @ profileType @ ''.gz''
      in case saveDebug env source savePath duration w of
           (Some err, w1) \<Rightarrow> emit (Logged (ErrorSavingProfile source err)) w1
         | (None, w1) \<Rightarrow> emit (Logged (InfoSavingProfile profileType savePath)) w1)"

definition saveProfiles :: "env \<Rightarrow> string \<Rightarrow> string \<Rightarrow> Duration \<Rightarrow> string list \<Rightarrow> world \<Rightarrow> world" where
  "saveProfiles env addr pathPrefix duration profiles w =
     (case saveProfiles_addr env addr w of
        (None, w1) \<Rightarrow> w1
      | (Some u, w1) \<Rightarrow> fold (saveProfiles_step env u pathPrefix duration) profiles w1)"

text \<open>Lines 73-80 of \<open>saveMetrics\<close>, written in the source a second time.\<close>

definition saveMetrics_addr :: "env \<Rightarrow> string \<Rightarrow> world \<Rightarrow> URL option \<times> world" where
  "saveMetrics_addr env addr w =
     (let r0 = Parse env addr;
          w0 = emit (UrlParse addr) w;
          (r, w1) =
            (if (case r0 of Inl err \<Rightarrow> True
                 | Inr u \<Rightarrow> Host u = [] \<and> Scheme u \<noteq> [] \<and> Scheme u \<noteq> ''file'')
             then (Parse env (''http://'' @ addr), emit (UrlParse (''http://'' @ addr)) w0)
             else (r0, w0))
      in case r of
           Inl err \<Rightarrow> (None, emit (Logged (ErrorParsingAddress addr (Some err))) w1)
         | Inr u \<Rightarrow>
             if Host u = [] then (None, emit (Logged (ErrorParsingAddress addr None)) w1)
             else (Some u, w1))"

text \<open>Lines 83-92: the body of the loop of \<open>saveMetrics\<close>.\<close>

definition saveMetrics_step ::
  "env \<Rightarrow> URL \<Rightarrow> string \<Rightarrow> Duration \<Rightarrow> string \<Rightarrow> world \<Rightarrow> world" where
  "saveMetrics_step env u pathPrefix duration metricType w =
     (let source = String env u @ ''/'' @ metricType;
          savePath = pathPrefix @ metricType @ ''.gz''
      in case saveDebug env source savePath duration w of
           (Some err, w1) \<Rightarrow> emit (Logged (ErrorSavingMetric source err)) w1
         | (None, w1) \<Rightarrow> emit (Logged (InfoSavingMetric metricType savePath)) w1)"

definition saveMetrics :: "env \<Rightarrow> string \<Rightarrow> string \<Rightarrow> Duration \<Rightarrow> string list \<Rightarrow> world \<Rightarrow> world" where
  "saveMetrics env addr pathPrefix duration metrics w =
     (case saveMetrics_addr env addr w of
        (None, w1) \<Rightarrow> w1
      | (Some u, w1) \<Rightarrow> fold (saveMetrics_step env u pathPrefix duration) metrics w1)"

subsection \<open>Reading the trace\<close>

text \<open>The strings handed to \<open>url.Parse\<close>, the requests sent and their timeouts.\<close>

fun parses :: "event list \<Rightarrow> string list" where
  "parses [] = []"
| "parses (UrlParse s # es) = s # parses es"
| "parses (e # es) = parses es"

fun requests :: "event list \<Rightarrow> string list" where
  "requests [] = []"
| "requests (HttpGet s t # es) = s # requests es"
| "requests (e # es) = requests es"

fun timeouts :: "event list \<Rightarrow> Duration list" where
  "timeouts [] = []"
| "timeouts (HttpGet s t # es) = t # timeouts es"
| "timeouts (e # es) = timeouts es"

text \<open>The files created and the writes to files.\<close>

fun file_actions :: "event list \<Rightarrow> event list" where
  "file_actions [] = []"
| "file_actions (FileCreated p # es) = FileCreated p # file_actions es"
| "file_actions (FileWritten p bs # es) = FileWritten p bs # file_actions es"
| "file_actions (e # es) = file_actions es"

text \<open>
  The resources held at the end of a trace: the response bodies opened and not closed,
  and the file handles opened and not closed, most recent first.
\<close>

fun open_bodies :: "event list \<Rightarrow> string list \<Rightarrow> string list" where
  "open_bodies [] held = held"
| "open_bodies (BodyOpened s # es) held = open_bodies es (s # held)"
| "open_bodies (BodyClosed s # es) held = open_bodies es (remove1 s held)"
| "open_bodies (e # es) held = open_bodies es held"

fun open_files :: "event list \<Rightarrow> string list \<Rightarrow> string list" where
  "open_files [] held = held"
| "open_files (FileCreated p # es) held = open_files es (p # held)"
| "open_files (FileClosed p # es) held = open_files es (remove1 p held)"
| "open_files (e # es) held = open_files es held"

subsection \<open>A concrete environment\<close>

text \<open>
  For evaluation at concrete inputs: \<open>url.Parse\<close> and \<open>URL.String\<close> of Go's package
  \<open>net/url\<close>, followed statement by statement (\<open>getScheme\<close>, \<open>parse\<close>, \<open>parseHost\<close>,
  \<open>validOptionalPort\<close>) on the addresses written with letters, digits and the
  characters \<open>. - _ + : /\<close> only. Such an address has no query, no fragment, no user
  information, no percent escape and no bracketed IP literal, so the parts of the
  library that handle those are not needed; on any other address \<open>url_Parse\<close> answers
  with an error of its own, which is not the library's answer, and nothing below
  evaluates it there. The error texts are the library's, without the wrapping
  \<open>parse "...":\<close>.
\<close>

definition byte_in :: "char \<Rightarrow> char \<Rightarrow> char \<Rightarrow> bool" where
  "byte_in lo hi c = (lo \<le> c \<and> c \<le> hi)"

definition isLetter :: "char \<Rightarrow> bool" where
  "isLetter c = (if byte_in (CHR ''a'') (CHR ''z'') c then True else byte_in (CHR ''A'') (CHR ''Z'') c)"

definition isDigit :: "char \<Rightarrow> bool" where
  "isDigit c = byte_in (CHR ''0'') (CHR ''9'') c"

definition plain :: "char \<Rightarrow> bool" where
  "plain c = (isLetter c \<or> isDigit c \<or> c \<in> set ''.-_+:/'')"

definition toLower :: "char \<Rightarrow> char" where
  "toLower c = (if byte_in (CHR ''A'') (CHR ''Z'') c then char_of (of_char c + (32::nat)) else c)"

text \<open>
  \<open>getScheme\<close>: the loop over the bytes of \<open>rawURL\<close>; \<open>seen\<close> is \<open>rawURL[:i]\<close>, the
  last argument \<open>rawURL[i:]\<close>. The result is the scheme and the rest.
\<close>

fun getScheme :: "string \<Rightarrow> string \<Rightarrow> string \<Rightarrow> string + string \<times> string" where
  "getScheme rawURL seen [] = Inr ([], rawURL)"
| "getScheme rawURL seen (c # cs) =
     (if isLetter c then getScheme rawURL (seen @ [c]) cs
      else if isDigit c \<or> c = CHR ''+'' \<or> c = CHR ''-'' \<or> c = CHR ''.''
        then (if seen = [] then Inr ([], rawURL) else getScheme rawURL (seen @ [c]) cs)
      else if c = CHR '':''
        then (if seen = [] then Inl ''missing protocol scheme'' else Inr (seen, cs))
      else Inr ([], rawURL))"

text \<open>
  \<open>parseHost\<close> without brackets: what follows the last colon must be a port, that is,
  digits only.
\<close>

definition parseHost :: "string \<Rightarrow> string + string" where
  "parseHost host =
     (if CHR '':'' \<in> set host \<and>
         \<not> list_all isDigit (rev (takeWhile (\<lambda>c. c \<noteq> CHR '':'') (rev host)))
      then Inl ''invalid port after host''
      else Inr host)"

definition url_Parse :: "string \<Rightarrow> string + URL" where
  "url_Parse rawURL =
     (if \<not> list_all plain rawURL then Inl ''address outside the modelled alphabet''
      else case getScheme rawURL [] rawURL of
        Inl e \<Rightarrow> Inl e
      | Inr (scheme, rest) \<Rightarrow>
          (let scheme = map toLower scheme in
           if \<not> prefix ''/'' rest \<and> scheme \<noteq> []
             then Inr \<lparr>Scheme = scheme, Opaque = rest, Host = [], Path = []\<rparr>
           else if \<not> prefix ''/'' rest \<and>
                   CHR '':'' \<in> set (takeWhile (\<lambda>c. c \<noteq> CHR ''/'') rest)
             then Inl ''first path segment in URL cannot contain colon''
           else if (scheme \<noteq> [] \<or> \<not> prefix ''///'' rest) \<and> prefix ''//'' rest
             then (case parseHost (takeWhile (\<lambda>c. c \<noteq> CHR ''/'') (drop 2 rest)) of
                     Inl e \<Rightarrow> Inl e
                   | Inr host \<Rightarrow>
                       Inr \<lparr>Scheme = scheme, Opaque = [], Host = host,
                            Path = dropWhile (\<lambda>c. c \<noteq> CHR ''/'') (drop 2 rest)\<rparr>)
           else Inr \<lparr>Scheme = scheme, Opaque = [], Host = [], Path = rest\<rparr>))"

text \<open>\<open>URL.String\<close> for a URL of such an address: nothing needs escaping.\<close>

definition url_String :: "URL \<Rightarrow> string" where
  "url_String u =
     (if Scheme u \<noteq> [] then Scheme u @ '':'' else []) @
     (if Opaque u \<noteq> [] then Opaque u
      else (if (Scheme u \<noteq> [] \<or> Host u \<noteq> []) \<and> (Host u \<noteq> [] \<or> Path u \<noteq> [])
            then ''//'' else []) @
           Host u @
           (if Path u \<noteq> [] \<and> \<not> prefix ''/'' (Path u) \<and> Host u \<noteq> [] then ''/'' else []) @
           (if Scheme u = [] \<and> Host u = [] \<and>
               CHR '':'' \<in> set (takeWhile (\<lambda>c. c \<noteq> CHR ''/'') (Path u))
            then ''./'' else []) @
           Path u)"

text \<open>
  \<open>int(duration.Seconds())\<close> for a duration of whole seconds: \<open>Seconds\<close> computes
  \<open>float64(d / Second) + float64(d % Second) / 1e9\<close>, which is exact when the remainder
  is zero and the quotient is below \<open>2 ^ 53\<close>, as it is for every \<open>int64\<close>.
\<close>

definition whole_seconds :: "Duration \<Rightarrow> int" where
  "whole_seconds d = sint d sdiv 1000000000"

text \<open>
  A server for the examples. It knows four URLs: two answer 200, one answers 500 with
  the header and the body of an error of \<open>net/http/pprof\<close>, one answers 204; every
  other request fails to connect.
\<close>

definition ok_response :: "string \<Rightarrow> Response" where
  "ok_response b =
     \<lparr>Status = ''200 OK'', StatusCode = 200, Header = Map.empty, Body = b, BodyErr = None\<rparr>"

definition oom_response :: Response where
  "oom_response =
     \<lparr>Status = ''500 Internal Server Error'', StatusCode = 500,
      Header = [''X-Go-Pprof'' \<mapsto> [''1''],
                ''Content-Type'' \<mapsto> [''text/plain; charset=utf-8'']],
      Body = ''out of memory'', BodyErr = None\<rparr>"

definition no_content_response :: Response where
  "no_content_response =
     \<lparr>Status = ''204 No Content'', StatusCode = 204, Header = Map.empty, Body = [],
      BodyErr = None\<rparr>"

definition server :: "world \<Rightarrow> string \<Rightarrow> Duration \<Rightarrow> string + Response" where
  "server w source timeout =
     (if source = ''http://host:1/debug/pprof/heap?duration=5'' then Inr (ok_response ''HEAP'')
      else if source = ''http://host:1/debug/pprof/block?duration=5'' then Inr oom_response
      else if source = ''http://host:1/health'' then Inr (ok_response ''OK'')
      else if source = ''http://host:1/state'' then Inr no_content_response
      else Inl ''dial tcp: connection refused'')"

definition go_env :: env where
  "go_env =
     \<lparr>Parse = url_Parse, String = url_String, Seconds = whole_seconds, Get = server,
      CreateFault = (\<lambda>w name. None), WriteFault = (\<lambda>w name bs. None)\<rparr>"

definition world0 :: world where
  "world0 = \<lparr>files = Map.empty, trace = []\<rparr>"

section \<open>Properties\<close>

subsection \<open>What each function adds to the trace\<close>

lemma trace_emit [simp]: "trace (emit e w) = trace w @ [e]"
  by (simp add: emit_def)

lemma files_emit [simp]: "files (emit e w) = files w"
  by (simp add: emit_def)

lemma parses_append [simp]: "parses (xs @ ys) = parses xs @ parses ys"
  by (induction xs rule: parses.induct) simp_all

lemma requests_append [simp]: "requests (xs @ ys) = requests xs @ requests ys"
  by (induction xs rule: requests.induct) simp_all

lemma timeouts_append [simp]: "timeouts (xs @ ys) = timeouts xs @ timeouts ys"
  by (induction xs rule: timeouts.induct) simp_all

lemma file_actions_append [simp]: "file_actions (xs @ ys) = file_actions xs @ file_actions ys"
  by (induction xs rule: file_actions.induct) simp_all

lemma open_bodies_append [simp]:
  "open_bodies (xs @ ys) held = open_bodies ys (open_bodies xs held)"
  by (induction xs held rule: open_bodies.induct) simp_all

lemma open_files_append [simp]:
  "open_files (xs @ ys) held = open_files ys (open_files xs held)"
  by (induction xs held rule: open_files.induct) simp_all

lemma trace_announce:
  "trace (announce s d w) =
     trace w @ Logged (InfoFetching s) # (if 0 < sint d then [Logged (InfoPleaseWait d)] else [])"
  by (simp add: announce_def Let_def)

lemma files_announce [simp]: "files (announce s d w) = files w"
  by (simp add: announce_def Let_def)

lemma requests_announce [simp]: "requests (trace (announce s d w)) = requests (trace w)"
  by (simp add: trace_announce)

lemma timeouts_announce [simp]: "timeouts (trace (announce s d w)) = timeouts (trace w)"
  by (simp add: trace_announce)

lemma file_actions_announce [simp]:
  "file_actions (trace (announce s d w)) = file_actions (trace w)"
  by (simp add: trace_announce)

lemma parses_announce [simp]: "parses (trace (announce s d w)) = parses (trace w)"
  by (simp add: trace_announce)

lemma fetchURL_requests [simp]:
  "requests (trace (snd (fetchURL env s t w))) = requests (trace w) @ [s]"
  by (simp add: fetchURL_def Let_def split: sum.splits)

lemma fetchURL_timeouts [simp]:
  "timeouts (trace (snd (fetchURL env s t w))) = timeouts (trace w) @ [t]"
  by (simp add: fetchURL_def Let_def split: sum.splits)

lemma fetchURL_files [simp]: "files (snd (fetchURL env s t w)) = files w"
  by (simp add: fetchURL_def Let_def split: sum.splits)

lemma fetchURL_file_actions [simp]:
  "file_actions (trace (snd (fetchURL env s t w))) = file_actions (trace w)"
  by (simp add: fetchURL_def Let_def split: sum.splits)

lemma fetchURL_parses [simp]:
  "parses (trace (snd (fetchURL env s t w))) = parses (trace w)"
  by (simp add: fetchURL_def Let_def split: sum.splits)

lemma os_Create_requests [simp]:
  "requests (trace (snd (os_Create env p w))) = requests (trace w)"
  by (simp add: os_Create_def split: option.splits)

lemma os_Create_timeouts [simp]:
  "timeouts (trace (snd (os_Create env p w))) = timeouts (trace w)"
  by (simp add: os_Create_def split: option.splits)

lemma io_Copy_requests [simp]:
  "requests (trace (snd (io_Copy env p r w))) = requests (trace w)"
  by (simp add: io_Copy_def append_file_def split: option.splits)

lemma io_Copy_timeouts [simp]:
  "timeouts (trace (snd (io_Copy env p r w))) = timeouts (trace w)"
  by (simp add: io_Copy_def append_file_def split: option.splits)

lemma saveDebug_requests [simp]:
  "requests (trace (snd (saveDebug env s p d w))) = requests (trace w) @ [s]"
proof -
  let ?t = "d + word_of_int (sint d sdiv 2) + 2 * Second"
  obtain r w1 where f: "fetchURL env s ?t (announce s d w) = (r, w1)"
    by (cases "fetchURL env s ?t (announce s d w)")
  have w1: "requests (trace w1) = requests (trace w) @ [s]"
    using fetchURL_requests [of env s ?t "announce s d w"] f by simp
  show ?thesis
  proof (cases r)
    case (Inl e)
    with f w1 show ?thesis by (simp add: saveDebug_def Let_def)
  next
    case (Inr resp)
    obtain c w2 where c: "os_Create env p w1 = (c, w2)"
      by (cases "os_Create env p w1")
    have w2: "requests (trace w2) = requests (trace w1)"
      using os_Create_requests [of env p w1] c by simp
    obtain e w3 where k: "io_Copy env p resp w2 = (e, w3)"
      by (cases "io_Copy env p resp w2")
    have w3: "requests (trace w3) = requests (trace w2)"
      using io_Copy_requests [of env p resp w2] k by simp
    from f Inr c k w1 w2 w3 show ?thesis
      by (cases c) (simp_all add: saveDebug_def Let_def)
  qed
qed

lemma saveDebug_timeouts:
  "timeouts (trace (snd (saveDebug env s p d w))) =
     timeouts (trace w) @ [d + word_of_int (sint d sdiv 2) + 2 * Second]"
proof -
  let ?t = "d + word_of_int (sint d sdiv 2) + 2 * Second"
  obtain r w1 where f: "fetchURL env s ?t (announce s d w) = (r, w1)"
    by (cases "fetchURL env s ?t (announce s d w)")
  have w1: "timeouts (trace w1) = timeouts (trace w) @ [?t]"
    using fetchURL_timeouts [of env s ?t "announce s d w"] f by simp
  show ?thesis
  proof (cases r)
    case (Inl e)
    with f w1 show ?thesis by (simp add: saveDebug_def Let_def)
  next
    case (Inr resp)
    obtain c w2 where c: "os_Create env p w1 = (c, w2)"
      by (cases "os_Create env p w1")
    have w2: "timeouts (trace w2) = timeouts (trace w1)"
      using os_Create_timeouts [of env p w1] c by simp
    obtain e w3 where k: "io_Copy env p resp w2 = (e, w3)"
      by (cases "io_Copy env p resp w2")
    have w3: "timeouts (trace w3) = timeouts (trace w2)"
      using io_Copy_timeouts [of env p resp w2] k by simp
    from f Inr c k w1 w2 w3 show ?thesis
      by (cases c) (simp_all add: saveDebug_def Let_def)
  qed
qed

subsection \<open>The four ways through saveDebug\<close>

text \<open>
  The request fails; the status is not 200; the file cannot be created; the body is copied.
  Each lemma gives the returned error and the world after the call.
\<close>

lemma saveDebug_fetch_failed:
  assumes "Get env (announce s d w) s (d + word_of_int (sint d sdiv 2) + 2 * Second) = Inl e"
  shows "saveDebug env s p d w =
           (Some (HttpFetch (''http fetch: '' @ e)),
            emit (HttpGet s (d + word_of_int (sint d sdiv 2) + 2 * Second)) (announce s d w))"
  using assms by (simp add: saveDebug_def fetchURL_def Let_def)

lemma saveDebug_bad_status:
  assumes "Get env (announce s d w) s (d + word_of_int (sint d sdiv 2) + 2 * Second) = Inr resp"
    and "StatusCode resp \<noteq> 200"
  shows "saveDebug env s p d w =
           (Some (statusCodeError resp),
            emit (BodyClosed s) (emit (BodyOpened s)
              (emit (HttpGet s (d + word_of_int (sint d sdiv 2) + 2 * Second)) (announce s d w))))"
  using assms by (simp add: saveDebug_def fetchURL_def Let_def)

lemma saveDebug_create_failed:
  assumes "Get env (announce s d w) s (d + word_of_int (sint d sdiv 2) + 2 * Second) = Inr resp"
    and "StatusCode resp = 200"
    and "w1 = emit (BodyOpened s)
              (emit (HttpGet s (d + word_of_int (sint d sdiv 2) + 2 * Second)) (announce s d w))"
    and "CreateFault env w1 p = Some e"
  shows "saveDebug env s p d w =
           (Some (CreateDump (''error while creating dump file: '' @ e)), emit (BodyClosed s) w1)"
  using assms by (simp add: saveDebug_def fetchURL_def os_Create_def Let_def)

lemma saveDebug_copied:
  assumes "Get env (announce s d w) s (d + word_of_int (sint d sdiv 2) + 2 * Second) = Inr resp"
    and "StatusCode resp = 200"
    and "w1 = emit (BodyOpened s)
              (emit (HttpGet s (d + word_of_int (sint d sdiv 2) + 2 * Second)) (announce s d w))"
    and "CreateFault env w1 p = None"
    and "w2 = emit (FileCreated p) (w1\<lparr>files := (files w1)(p \<mapsto> [])\<rparr>)"
  shows "saveDebug env s p d w =
           (map_option CopyFailed (fst (io_Copy env p resp w2)),
            emit (BodyClosed s) (snd (io_Copy env p resp w2)))"
  using assms by (simp add: saveDebug_def fetchURL_def os_Create_def Let_def split: prod.splits)

lemma statusCodeError_is_ServerResponse:
  "statusCodeError resp =
     ServerResponse (''server response: '' @ Status resp @
       (if Header_Get (Header resp) ''X-Go-Pprof'' \<noteq> [] \<and>
           Contains (Header_Get (Header resp) ''Content-Type'') ''text/plain'' \<and>
           BodyErr resp = None
        then '' - '' @ Body resp else []))"
  by (simp add: statusCodeError_def split: option.splits)


subsection \<open>Arithmetic of the timeout\<close>

lemma timeout_no_overflow:
  fixes d :: Duration
  assumes "0 \<le> sint d" and "sint d + sint d div 2 + 2000000000 < 2 ^ 63"
  shows "sint (d + word_of_int (sint d sdiv 2) + 2 * Second) = sint d + sint d div 2 + 2000000000"
proof -
  let ?k = "sint d + sint d div 2 + 2000000000"
  have h: "sint d sdiv 2 = sint d div 2"
    using assms(1) by (simp add: signed_divide_int_def sgn_if)
  have eq: "d + word_of_int (sint d sdiv 2) + 2 * Second = word_of_int ?k"
    by (simp add: h Second_def)
  have "- (2 ^ 63) \<le> ?k"
    using assms(1) by simp
  then have "signed_take_bit 63 ?k = ?k"
    using assms(2) by (rule signed_take_bit_int_eq_self)
  then show ?thesis
    unfolding eq sint_sbintrunc' by simp
qed

subsection \<open>The address check and the loops\<close>

lemma saveProfiles_addr_quiet:
  "requests (trace (snd (saveProfiles_addr env addr w))) = requests (trace w) \<and>
   file_actions (trace (snd (saveProfiles_addr env addr w))) = file_actions (trace w) \<and>
   files (snd (saveProfiles_addr env addr w)) = files w"
  by (simp add: saveProfiles_addr_def Let_def split: sum.splits)

lemma saveMetrics_addr_quiet:
  "requests (trace (snd (saveMetrics_addr env addr w))) = requests (trace w) \<and>
   file_actions (trace (snd (saveMetrics_addr env addr w))) = file_actions (trace w) \<and>
   files (snd (saveMetrics_addr env addr w)) = files w"
  by (simp add: saveMetrics_addr_def Let_def split: sum.splits)

lemma saveProfiles_addr_result:
  assumes "r = (if (case Parse env addr of Inl err \<Rightarrow> True
                    | Inr u \<Rightarrow> Host u = [] \<and> Scheme u \<noteq> [] \<and> Scheme u \<noteq> ''file'')
                then Parse env (''http://'' @ addr) else Parse env addr)"
  shows "fst (saveProfiles_addr env addr w) =
           (case r of Inl err \<Rightarrow> None | Inr u \<Rightarrow> if Host u = [] then None else Some u)"
  using assms by (simp add: saveProfiles_addr_def Let_def split: sum.splits)

lemma saveMetrics_addr_result:
  assumes "r = (if (case Parse env addr of Inl err \<Rightarrow> True
                    | Inr u \<Rightarrow> Host u = [] \<and> Scheme u \<noteq> [] \<and> Scheme u \<noteq> ''file'')
                then Parse env (''http://'' @ addr) else Parse env addr)"
  shows "fst (saveMetrics_addr env addr w) =
           (case r of Inl err \<Rightarrow> None | Inr u \<Rightarrow> if Host u = [] then None else Some u)"
  using assms by (simp add: saveMetrics_addr_def Let_def split: sum.splits)

lemma requests_saveProfiles_step:
  "requests (trace (saveProfiles_step env u pathPrefix d name w)) =
     requests (trace w) @
       [String env u @ ''/debug/pprof/'' @ name @ ''?duration='' @ itoa (Seconds env d)]"
proof -
  let ?s = "String env u @ ''/debug/pprof/'' @ name @ ''?duration='' @ itoa (Seconds env d)"
  obtain r w1 where sd: "saveDebug env ?s (pathPrefix @ name @ ''.gz'') d w = (r, w1)"
    by (cases "saveDebug env ?s (pathPrefix @ name @ ''.gz'') d w")
  have "requests (trace w1) = requests (trace w) @ [?s]"
    using saveDebug_requests [of env ?s "pathPrefix @ name @ ''.gz''" d w]
    unfolding sd by simp
  with sd show ?thesis
    by (cases r) (simp_all add: saveProfiles_step_def Let_def)
qed

lemma requests_saveMetrics_step:
  "requests (trace (saveMetrics_step env u pathPrefix d name w)) =
     requests (trace w) @ [String env u @ ''/'' @ name]"
proof -
  let ?s = "String env u @ ''/'' @ name"
  obtain r w1 where sd: "saveDebug env ?s (pathPrefix @ name @ ''.gz'') d w = (r, w1)"
    by (cases "saveDebug env ?s (pathPrefix @ name @ ''.gz'') d w")
  have "requests (trace w1) = requests (trace w) @ [?s]"
    using saveDebug_requests [of env ?s "pathPrefix @ name @ ''.gz''" d w]
    unfolding sd by simp
  with sd show ?thesis
    by (cases r) (simp_all add: saveMetrics_step_def Let_def)
qed

lemma requests_fold_step:
  assumes "\<And>name w. requests (trace (step name w)) = requests (trace w) @ [url name]"
  shows "requests (trace (fold step names w)) = requests (trace w) @ map url names"
  using assms by (induction names arbitrary: w) simp_all

subsection \<open>Resources\<close>

lemma saveDebug_closes_body:
  "open_bodies (trace (snd (saveDebug env s p d w))) held = open_bodies (trace w) held"
  by (simp add: saveDebug_def fetchURL_def os_Create_def io_Copy_def append_file_def
      trace_announce Let_def split: sum.splits option.splits prod.splits)

lemma open_files_io_Copy:
  "open_files (trace (snd (io_Copy env p r w))) held = open_files (trace w) held"
  by (simp add: io_Copy_def append_file_def split: option.splits)

lemma open_files_announce:
  "open_files (trace (announce s d w)) held = open_files (trace w) held"
  by (simp add: trace_announce)

lemma saveDebug_keeps_file_open:
  assumes "fst (saveDebug env s p d w) = None"
  shows "open_files (trace (snd (saveDebug env s p d w))) held = p # open_files (trace w) held"
proof -
  let ?t = "d + word_of_int (sint d sdiv 2) + 2 * Second"
  let ?w0 = "announce s d w"
  let ?w1 = "emit (BodyOpened s) (emit (HttpGet s ?t) ?w0)"
  let ?w2 = "emit (FileCreated p) (?w1\<lparr>files := (files ?w1)(p \<mapsto> [])\<rparr>)"
  show ?thesis
  proof (cases "Get env ?w0 s ?t")
    case (Inl e)
    from assms saveDebug_fetch_failed [OF Inl, of p] show ?thesis by simp
  next
    case (Inr resp)
    show ?thesis
    proof (cases "StatusCode resp = 200")
      case False
      from assms saveDebug_bad_status [OF Inr False, of p] show ?thesis by simp
    next
      case True
      show ?thesis
      proof (cases "CreateFault env ?w1 p")
        case (Some e)
        from assms saveDebug_create_failed [OF Inr True refl Some] show ?thesis by simp
      next
        case None
        have "open_files (trace ?w2) held = p # open_files (trace w) held"
          by (simp add: open_files_announce)
        then show ?thesis
          by (simp add: saveDebug_copied [OF Inr True refl None refl] open_files_io_Copy)
      qed
    qed
  qed
qed

subsection \<open>Unfolding for evaluation\<close>

lemmas model_defs =
  saveProfiles_def saveMetrics_def saveProfiles_addr_def saveMetrics_addr_def
  saveProfiles_step_def saveMetrics_step_def saveDebug_def fetchURL_def announce_def
  statusCodeError_def os_Create_def io_Copy_def append_file_def emit_def Header_Get_def
  itoa_def showNat.simps Second_def Let_def

lemmas go_env_defs =
  go_env_def world0_def server_def ok_response_def oom_response_def no_content_response_def
  whole_seconds_def url_String_def url_Parse_def parseHost_def plain_def isLetter_def
  isDigit_def toLower_def byte_in_def

section \<open>The claims\<close>

text \<open>
  Claim C1, as the code has it. \<open>saveProfiles\<close> hands the address to \<open>url.Parse\<close>, and
  hands \<open>http://\<close> followed by the address to it a second time exactly when the first
  parse failed, or gave a URL with no host and a scheme that is neither empty nor
  \<open>file\<close> (line 50). An address that parses with neither scheme nor host is therefore
  not parsed again, and the call returns at line 55. An address whose first parse gives
  no host and a scheme other than \<open>file\<close> is parsed again, and the loop works with the
  second result when that has a host.
\<close>

theorem fallback_condition:
  "parses (trace (snd (saveProfiles_addr env addr w))) =
     parses (trace w) @
       (if (case Parse env addr of Inl err \<Rightarrow> True
            | Inr u \<Rightarrow> Host u = [] \<and> Scheme u \<noteq> [] \<and> Scheme u \<noteq> ''file'')
        then [addr, ''http://'' @ addr] else [addr]) \<and>
   (\<forall>u. Parse env addr = Inr u \<longrightarrow> Host u = [] \<longrightarrow> Scheme u = [] \<longrightarrow>
        fst (saveProfiles_addr env addr w) = None) \<and>
   (\<forall>u u'. Parse env addr = Inr u \<longrightarrow> Host u = [] \<longrightarrow> Scheme u \<noteq> [] \<longrightarrow>
        Scheme u \<noteq> ''file'' \<longrightarrow> Parse env (''http://'' @ addr) = Inr u' \<longrightarrow> Host u' \<noteq> [] \<longrightarrow>
        fst (saveProfiles_addr env addr w) = Some u')"
  by (simp add: saveProfiles_addr_def Let_def split: sum.splits)

text \<open>
  At \<open>localhost:8080\<close> the first parse reads \<open>localhost\<close> as the scheme, the second
  one gives the host; at \<open>localhost\<close> the first parse gives a path only.
\<close>

theorem fallback_condition_witness:
  "parses (trace (snd (saveProfiles_addr go_env ''localhost:8080'' world0))) =
     [''localhost:8080'', ''http://localhost:8080''] \<and>
   map_option url_String (fst (saveProfiles_addr go_env ''localhost:8080'' world0)) =
     Some ''http://localhost:8080'' \<and>
   Parse go_env ''localhost'' =
     Inr \<lparr>Scheme = [], Opaque = [], Host = [], Path = ''localhost''\<rparr> \<and>
   fst (saveProfiles_addr go_env ''localhost'' world0) = None"
  using fallback_condition [of go_env "''localhost:8080''" world0]
    fallback_condition [of go_env "''localhost''" world0]
  by (simp add: model_defs go_env_defs)

text \<open>
  The claim as written asks for the second parse also when the URL has no host and no
  scheme. \<open>localhost\<close> parses without error to a URL with neither; it is handed to
  \<open>url.Parse\<close> once, and rejected.
\<close>

theorem bare_host_not_retried:
  "Parse go_env ''localhost'' = Inr \<lparr>Scheme = [], Opaque = [], Host = [], Path = ''localhost''\<rparr> \<and>
   parses (trace (snd (saveProfiles_addr go_env ''localhost'' world0))) = [''localhost''] \<and>
   fst (saveProfiles_addr go_env ''localhost'' world0) = None"
  by (simp add: model_defs go_env_defs)

text \<open>
  Claim C2. Whatever the server and the file system answer, \<open>saveProfiles\<close> and
  \<open>saveMetrics\<close> send one request for each name of the list, in the order of the
  list, once the address is accepted: a failure of \<open>saveDebug\<close> for one name is logged
  and the loop goes on. Both functions return nothing in the source; here they are total
  functions from the world before the call to the world after it, with no error among
  their results.
\<close>

theorem batch_requests_every_endpoint:
  "requests (trace (saveProfiles env addr pathPrefix duration names w)) =
     requests (trace w) @
       (case fst (saveProfiles_addr env addr w) of
          None \<Rightarrow> []
        | Some u \<Rightarrow>
            map (\<lambda>name. String env u @ ''/debug/pprof/'' @ name @ ''?duration='' @
                         itoa (Seconds env duration)) names) \<and>
   requests (trace (saveMetrics env addr pathPrefix duration names w)) =
     requests (trace w) @
       (case fst (saveMetrics_addr env addr w) of
          None \<Rightarrow> []
        | Some u \<Rightarrow> map (\<lambda>name. String env u @ ''/'' @ name) names)"
proof
  obtain r w1 where a: "saveProfiles_addr env addr w = (r, w1)"
    by (cases "saveProfiles_addr env addr w")
  have q: "requests (trace w1) = requests (trace w)"
    using saveProfiles_addr_quiet [of env addr w] unfolding a by simp
  show "requests (trace (saveProfiles env addr pathPrefix duration names w)) =
     requests (trace w) @
       (case fst (saveProfiles_addr env addr w) of
          None \<Rightarrow> []
        | Some u \<Rightarrow>
            map (\<lambda>name. String env u @ ''/debug/pprof/'' @ name @ ''?duration='' @
                         itoa (Seconds env duration)) names)"
  proof (cases r)
    case None
    with a q show ?thesis by (simp add: saveProfiles_def)
  next
    case (Some u)
    with a q requests_fold_step [of "saveProfiles_step env u pathPrefix duration",
        OF requests_saveProfiles_step]
    show ?thesis by (simp add: saveProfiles_def)
  qed
next
  obtain r w1 where a: "saveMetrics_addr env addr w = (r, w1)"
    by (cases "saveMetrics_addr env addr w")
  have q: "requests (trace w1) = requests (trace w)"
    using saveMetrics_addr_quiet [of env addr w] unfolding a by simp
  show "requests (trace (saveMetrics env addr pathPrefix duration names w)) =
     requests (trace w) @
       (case fst (saveMetrics_addr env addr w) of
          None \<Rightarrow> []
        | Some u \<Rightarrow> map (\<lambda>name. String env u @ ''/'' @ name) names)"
  proof (cases r)
    case None
    with a q show ?thesis by (simp add: saveMetrics_def)
  next
    case (Some u)
    with a q requests_fold_step [of "saveMetrics_step env u pathPrefix duration",
        OF requests_saveMetrics_step]
    show ?thesis by (simp add: saveMetrics_def)
  qed
qed

text \<open>
  The server answers 500 for \<open>block\<close> and refuses the connection for \<open>mutex\<close>;
  \<open>heap\<close>, the last of the list, is still requested and saved.
\<close>

theorem batch_requests_every_endpoint_witness:
  "requests (trace (saveProfiles go_env ''host:1'' ''/tmp/dbg-'' (5 * Second)
                      [''block'', ''mutex'', ''heap''] world0)) =
     [''http://host:1/debug/pprof/block?duration=5'',
      ''http://host:1/debug/pprof/mutex?duration=5'',
      ''http://host:1/debug/pprof/heap?duration=5''] \<and>
   files (saveProfiles go_env ''host:1'' ''/tmp/dbg-'' (5 * Second)
            [''block'', ''mutex'', ''heap''] world0) =
     [''/tmp/dbg-heap.gz'' \<mapsto> ''HEAP'']"
  using batch_requests_every_endpoint [of go_env "''host:1''" "''/tmp/dbg-''" "5 * Second"
                  "[''block'', ''mutex'', ''heap'']" world0]
  by (simp add: model_defs go_env_defs)

text \<open>
  Claim C3. Let \<open>r\<close> be the result of parsing the address, after the fallback of line
  50 where it applies. When \<open>r\<close> is an error or a URL without host, neither
  \<open>saveProfiles\<close> nor \<open>saveMetrics\<close> sends a request, creates a file or writes to
  one, and the file system is as before, for every list of names.
\<close>

theorem rejected_address_no_io:
  assumes "r = (if (case Parse env addr of Inl err \<Rightarrow> True
                    | Inr u \<Rightarrow> Host u = [] \<and> Scheme u \<noteq> [] \<and> Scheme u \<noteq> ''file'')
                then Parse env (''http://'' @ addr) else Parse env addr)"
    and "case r of Inl err \<Rightarrow> True | Inr u \<Rightarrow> Host u = []"
  shows "requests (trace (saveProfiles env addr pathPrefix duration names w)) = requests (trace w) \<and>
         file_actions (trace (saveProfiles env addr pathPrefix duration names w)) =
           file_actions (trace w) \<and>
         files (saveProfiles env addr pathPrefix duration names w) = files w \<and>
         requests (trace (saveMetrics env addr pathPrefix duration names w)) = requests (trace w) \<and>
         file_actions (trace (saveMetrics env addr pathPrefix duration names w)) =
           file_actions (trace w) \<and>
         files (saveMetrics env addr pathPrefix duration names w) = files w"
proof -
  have p: "fst (saveProfiles_addr env addr w) = None"
    using saveProfiles_addr_result [OF assms(1), of w] assms(2) by (cases r) simp_all
  have m: "fst (saveMetrics_addr env addr w) = None"
    using saveMetrics_addr_result [OF assms(1), of w] assms(2) by (cases r) simp_all
  have "saveProfiles env addr pathPrefix duration names w = snd (saveProfiles_addr env addr w)"
    using p by (cases "saveProfiles_addr env addr w") (simp add: saveProfiles_def)
  moreover
  have "saveMetrics env addr pathPrefix duration names w = snd (saveMetrics_addr env addr w)"
    using m by (cases "saveMetrics_addr env addr w") (simp add: saveMetrics_def)
  ultimately show ?thesis
    using saveProfiles_addr_quiet [of env addr w] saveMetrics_addr_quiet [of env addr w]
    by simp
qed

text \<open>The empty address parses to the empty URL, which has no host.\<close>

theorem rejected_address_no_io_witness:
  "Parse go_env [] = Inr \<lparr>Scheme = [], Opaque = [], Host = [], Path = []\<rparr> \<and>
   requests (trace (saveProfiles go_env [] ''/tmp/dbg-'' (5 * Second) [''heap'', ''block''] world0)) = [] \<and>
   files (saveProfiles go_env [] ''/tmp/dbg-'' (5 * Second) [''heap'', ''block''] world0) = Map.empty \<and>
   requests (trace (saveMetrics go_env [] ''/tmp/dbg-'' (5 * Second) [''health''] world0)) = [] \<and>
   files (saveMetrics go_env [] ''/tmp/dbg-'' (5 * Second) [''health''] world0) = Map.empty"
proof -
  have r: "Parse go_env [] = Inr \<lparr>Scheme = [], Opaque = [], Host = [], Path = []\<rparr>"
    by (simp add: go_env_defs)
  have a: "Parse go_env [] =
             (if (case Parse go_env [] of Inl err \<Rightarrow> True
                  | Inr u \<Rightarrow> Host u = [] \<and> Scheme u \<noteq> [] \<and> Scheme u \<noteq> ''file'')
              then Parse go_env (''http://'' @ []) else Parse go_env [])"
    by (simp add: r)
  have b: "case Parse go_env [] of Inl err \<Rightarrow> True | Inr u \<Rightarrow> Host u = []"
    by (simp add: r)
  from rejected_address_no_io [OF a b, of "''/tmp/dbg-''" "5 * Second" "[''heap'', ''block'']" world0]
       rejected_address_no_io [OF a b, of "''/tmp/dbg-''" "5 * Second" "[''health'']" world0] r
  show ?thesis by (simp add: world0_def)
qed

text \<open>
  Claim C4 does not hold of the code: \<open>saveDebug\<close> closes the response body on every
  path (\<open>saveDebug_closes_body\<close>), but no statement closes the file that \<open>os.Create\<close>
  opened, so every call that reaches line 114 successfully returns with the handle open
  (\<open>saveDebug_keeps_file_open\<close> for the calls that succeed). Evaluated for a request
  that the server answers with 200: the call succeeds, no body is left open, and the
  handle of the output file is.
\<close>

theorem file_handle_left_open:
  "fst (saveDebug go_env ''http://host:1/health'' ''/tmp/dbg-health.gz'' 0 world0) = None \<and>
   open_bodies (trace (snd (saveDebug go_env ''http://host:1/health'' ''/tmp/dbg-health.gz'' 0 world0))) [] = [] \<and>
   open_files (trace (snd (saveDebug go_env ''http://host:1/health'' ''/tmp/dbg-health.gz'' 0 world0))) [] =
     [''/tmp/dbg-health.gz'']"
  by (simp add: model_defs go_env_defs)

text \<open>
  Claim C5, as the code has it. \<open>saveDebug\<close> returns the error of \<open>statusCodeError\<close>
  exactly when the request was answered and the status code of the answer is not 200
  (line 131 compares with \<open>http.StatusOK\<close>); in that case no file is created or
  written, and the file system is as before.
\<close>

theorem status_error_iff_not_200:
  "((\<exists>m. fst (saveDebug env sourceURL filePath duration w) = Some (ServerResponse m)) \<longleftrightarrow>
    (\<exists>resp. Get env (announce sourceURL duration w) sourceURL
               (duration + word_of_int (sint duration sdiv 2) + 2 * Second) = Inr resp \<and>
            StatusCode resp \<noteq> 200)) \<and>
   (\<forall>m. fst (saveDebug env sourceURL filePath duration w) = Some (ServerResponse m) \<longrightarrow>
        files (snd (saveDebug env sourceURL filePath duration w)) = files w \<and>
        file_actions (trace (snd (saveDebug env sourceURL filePath duration w))) =
          file_actions (trace w))"
proof -
  let ?t = "duration + word_of_int (sint duration sdiv 2) + 2 * Second"
  let ?w0 = "announce sourceURL duration w"
  let ?w1 = "emit (BodyOpened sourceURL) (emit (HttpGet sourceURL ?t) ?w0)"
  let ?w2 = "emit (FileCreated filePath) (?w1\<lparr>files := (files ?w1)(filePath \<mapsto> [])\<rparr>)"
  show ?thesis
  proof (cases "Get env ?w0 sourceURL ?t")
    case (Inl e)
    from saveDebug_fetch_failed [OF Inl, of filePath] Inl show ?thesis by simp
  next
    case (Inr resp)
    show ?thesis
    proof (cases "StatusCode resp = 200")
      case False
      from saveDebug_bad_status [OF Inr False, of filePath] Inr False show ?thesis
        by (simp add: statusCodeError_is_ServerResponse)
    next
      case True
      show ?thesis
      proof (cases "CreateFault env ?w1 filePath")
        case (Some e)
        from saveDebug_create_failed [OF Inr True refl Some] Inr True show ?thesis by simp
      next
        case None
        have "fst (saveDebug env sourceURL filePath duration w) \<noteq> Some (ServerResponse m)" for m
          by (cases "fst (io_Copy env filePath resp ?w2)")
             (simp_all add: saveDebug_copied [OF Inr True refl None refl])
        with Inr True show ?thesis by simp
      qed
    qed
  qed
qed

text \<open>A status 500 is such an error and leaves no file; a status 200 is a success.\<close>

theorem status_error_iff_not_200_witness:
  "fst (saveDebug go_env ''http://host:1/debug/pprof/block?duration=5'' ''/tmp/dbg-block.gz''
          (5 * Second) world0) =
     Some (ServerResponse ''server response: 500 Internal Server Error - out of memory'') \<and>
   files (snd (saveDebug go_env ''http://host:1/debug/pprof/block?duration=5''
                 ''/tmp/dbg-block.gz'' (5 * Second) world0)) = Map.empty \<and>
   file_actions (trace (snd (saveDebug go_env ''http://host:1/debug/pprof/block?duration=5''
                 ''/tmp/dbg-block.gz'' (5 * Second) world0))) = [] \<and>
   fst (saveDebug go_env ''http://host:1/debug/pprof/heap?duration=5'' ''/tmp/dbg-heap.gz''
          (5 * Second) world0) = None"
  using status_error_iff_not_200 [of go_env "''http://host:1/debug/pprof/block?duration=5''" "''/tmp/dbg-block.gz''"
                  "5 * Second" world0]
  by (simp add: model_defs go_env_defs)

text \<open>
  The claim as written counts every 2xx status as a success. The server answers the
  request for \<open>/state\<close> with 204 No Content, and \<open>saveDebug\<close> returns the status
  error.
\<close>

theorem status_204_is_error:
  "Get go_env (announce ''http://host:1/state'' 0 world0) ''http://host:1/state''
     (0 + word_of_int (sint (0 :: Duration) sdiv 2) + 2 * Second) = Inr no_content_response \<and>
   StatusCode no_content_response = 204 \<and>
   fst (saveDebug go_env ''http://host:1/state'' ''/tmp/dbg-state.gz'' 0 world0) =
     Some (ServerResponse ''server response: 204 No Content'')"
  by (simp add: model_defs go_env_defs)



text \<open>
  Claim C7, as the code has it. The timeout is computed in \<open>int64\<close> nanoseconds. For
  every duration \<open>d \<ge> 0\<close> for which \<open>d + d/2 + 2 s\<close> is below \<open>2 ^ 63\<close> nanoseconds,
  the one request of \<open>saveDebug\<close> is sent with exactly that timeout.
\<close>

theorem timeout_value:
  assumes "0 \<le> sint duration"
    and "sint duration + sint duration div 2 + 2000000000 < 2 ^ 63"
  shows "\<exists>t. timeouts (trace (snd (saveDebug env sourceURL filePath duration w))) =
               timeouts (trace w) @ [t] \<and>
             sint t = sint duration + sint duration div 2 + 2000000000"
  using timeout_no_overflow [OF assms] saveDebug_timeouts [of env sourceURL filePath duration w]
  by blast

text \<open>Ten seconds give a timeout of seventeen seconds.\<close>

theorem timeout_value_witness:
  "(0::int) \<le> sint (10 * Second) \<and>
   sint (10 * Second) + sint (10 * Second) div 2 + 2000000000 < (2::int) ^ 63 \<and>
   timeouts (trace (snd (saveDebug go_env ''http://host:1/health'' ''/tmp/dbg-health.gz''
                           (10 * Second) world0))) = [17 * Second]"
proof -
  have a: "(0::int) \<le> sint (10 * Second)" by (simp add: Second_def)
  have b: "sint (10 * Second) + sint (10 * Second) div 2 + 2000000000 < (2::int) ^ 63"
    by (simp add: Second_def)
  from timeout_value [OF a b, of go_env "''http://host:1/health''" "''/tmp/dbg-health.gz''" world0] a b
  show ?thesis by (simp add: model_defs go_env_defs)
qed

text \<open>
  The claim as written speaks of every duration \<open>d \<ge> 0\<close>. For the largest
  \<open>time.Duration\<close>, \<open>2 ^ 63 - 1\<close> nanoseconds, the sum wraps around: the timeout of
  the request is negative, and is not \<open>d + d/2 + 2 s\<close>.
\<close>

theorem timeout_wraps_around:
  "timeouts (trace (snd (saveDebug go_env [] [] 9223372036854775807 world0))) =
     [- 4611686016427387906] \<and>
   sint (- 4611686016427387906 :: Duration) \<noteq>
     9223372036854775807 + 9223372036854775807 div 2 + 2000000000"
  by (simp add: model_defs go_env_defs)



text \<open>
  Claim C9. For every answer whose status code is not 200, the error of \<open>fetchURL\<close> is
  \<open>server response:\<close> and the status line, followed by \<open>-\<close> and the whole body exactly
  when \<open>Header.Get\<close> finds a non-empty \<open>X-Go-Pprof\<close>, the \<open>Content-Type\<close> contains
  \<open>text/plain\<close>, and the body was read without error; in every other case the message
  ends with the status line.
\<close>

theorem status_error_message:
  assumes "Get env w source timeout = Inr resp" and "StatusCode resp \<noteq> 200"
  shows "fst (fetchURL env source timeout w) =
           Inl (ServerResponse (''server response: '' @ Status resp @
             (if Header_Get (Header resp) ''X-Go-Pprof'' \<noteq> [] \<and>
                 Contains (Header_Get (Header resp) ''Content-Type'') ''text/plain'' \<and>
                 BodyErr resp = None
              then '' - '' @ Body resp else [])))"
  using assms by (simp add: fetchURL_def Let_def statusCodeError_is_ServerResponse)

text \<open>
  The answer 500 of \<open>net/http/pprof\<close> carries both headers, and its body is in the
  message; the answer 204 carries none, and the message is the status line.
\<close>

theorem status_error_message_witness:
  "fst (fetchURL go_env ''http://host:1/debug/pprof/block?duration=5'' (9 * Second) world0) =
     Inl (ServerResponse ''server response: 500 Internal Server Error - out of memory'') \<and>
   fst (fetchURL go_env ''http://host:1/state'' (2 * Second) world0) =
     Inl (ServerResponse ''server response: 204 No Content'')"
proof -
  have a: "Get go_env world0 ''http://host:1/debug/pprof/block?duration=5'' (9 * Second) =
             Inr oom_response"
    by (simp add: go_env_defs)
  have b: "StatusCode oom_response \<noteq> 200" by (simp add: oom_response_def)
  have c: "Get go_env world0 ''http://host:1/state'' (2 * Second) = Inr no_content_response"
    by (simp add: go_env_defs)
  have d: "StatusCode no_content_response \<noteq> 200" by (simp add: no_content_response_def)
  from status_error_message [OF a b] status_error_message [OF c d] show ?thesis
    by (simp add: oom_response_def no_content_response_def Header_Get_def)
qed

text \<open>
  Claim C10. The address check of \<open>saveMetrics\<close> (lines 73-80) is the one of
  \<open>saveProfiles\<close> (lines 49-56): for every address and every world, both parse the
  same strings, log the same line, reject the same addresses and go on with the same
  URL. With an empty list of names the two functions do the same.
\<close>

theorem same_address_normalization:
  "saveProfiles_addr env addr w = saveMetrics_addr env addr w \<and>
   saveProfiles env addr pathPrefix duration [] w = saveMetrics env addr pathPrefix' duration' [] w"
proof -
  have e: "saveProfiles_addr env addr w = saveMetrics_addr env addr w"
    by (simp add: saveProfiles_addr_def saveMetrics_addr_def)
  then show ?thesis
    by (simp add: saveProfiles_def saveMetrics_def split: prod.splits option.splits)
qed

text \<open>Both accept \<open>localhost:8080\<close> as \<open>http://localhost:8080\<close>, both reject \<open>localhost\<close>.\<close>

theorem same_address_normalization_witness:
  "map_option url_String (fst (saveProfiles_addr go_env ''localhost:8080'' world0)) =
     Some ''http://localhost:8080'' \<and>
   map_option url_String (fst (saveMetrics_addr go_env ''localhost:8080'' world0)) =
     Some ''http://localhost:8080'' \<and>
   fst (saveProfiles_addr go_env ''localhost'' world0) = None \<and>
   fst (saveMetrics_addr go_env ''localhost'' world0) = None"
  using same_address_normalization [of go_env "''localhost:8080''" world0] same_address_normalization [of go_env "''localhost''" world0]
  by (simp add: model_defs go_env_defs)

end
